theory Spec2Isabelle
  imports Main "HOL-Library.Word"
begin

unbundle bit_operations_syntax

section \<open>Machine types and the constants of main.c\<close>

type_synonym u8 = "8 word"
type_synonym u16 = "16 word"

text \<open>main.c, lines 24-30.\<close>

definition RTC_REG_START_TIME :: u8 where
  "RTC_REG_START_TIME = 0x00"

definition RTC_REG_RAM_BUF_START :: u8 where
  "RTC_REG_RAM_BUF_START = 0x08"

definition RTC_RAM_SIZE :: u8 where
  "RTC_RAM_SIZE = 56"

definition EEPROM_SIZE :: u16 where
  "EEPROM_SIZE = 4096"

text \<open>main.c, lines 33-38: \<^verbatim>\<open>struct rtc_time_var\<close>.\<close>

record rtc_time_var =
  sec_10 :: u8
  sec_1 :: u8
  min_10 :: u8
  min_1 :: u8

text \<open>
  main.c, lines 41-42. A C string literal initialises a \<^verbatim>\<open>char\<close> array with the
  characters and a terminating zero byte; \<^verbatim>\<open>strlen\<close> counts the bytes before the
  first zero byte (on an array without one C reads past the end; the arrays of this
  program all have one).
\<close>

definition Dummy_EEPROM :: "u8 list" where
  "Dummy_EEPROM = map of_char ''EEPROM_Dummy_data'' @ [0]"

definition Dummy_RTC_RAM :: "u8 list" where
  "Dummy_RTC_RAM = map of_char ''RTC_RAM_Dummy_data'' @ [0]"

definition strlen :: "u8 list \<Rightarrow> nat" where
  "strlen cs = length (takeWhile (\<lambda>c. c \<noteq> 0) cs)"

text \<open>
  C converts an argument to the type of the parameter: a \<^verbatim>\<open>size_t\<close> or \<^verbatim>\<open>int\<close>
  length passed for a \<^verbatim>\<open>uint8_t len\<close> is reduced modulo 256, one passed for a
  \<^verbatim>\<open>uint16_t len\<close> modulo 65536 (main.c, lines 125, 126, 135, 138).
\<close>

definition u8_of_size :: "nat \<Rightarrow> u8" where
  "u8_of_size n = of_nat n"

definition u16_of_size :: "nat \<Rightarrow> u16" where
  "u16_of_size n = of_nat n"

section \<open>The two-wire bus and the two devices\<close>

text \<open>
  Modelled from the spec: the header i2c/i2c.h with the constants \<^verbatim>\<open>DS1307\<close> and
  \<^verbatim>\<open>AT24C32\<close> is absent. The spec says they are two bus device addresses, one per
  device; their numbers play no role, so the two devices are the two values of a type.
\<close>

datatype i2c_dev = DS1307 | AT24C32

text \<open>
  Modelled from the spec: the bus transaction primitive is an external collaborator,
  \<^verbatim>\<open>write(device_addr, bytes) -> ok|error\<close> and
  \<^verbatim>\<open>read(device_addr, length) -> bytes|error\<close>. A transaction is recorded in the
  order it is issued.
\<close>

datatype txn = BusWrite i2c_dev "u8 list" | BusRead i2c_dev nat

text \<open>
  Modelled from the spec: the state outside the firmware. \<open>trace\<close> lists the
  transactions issued so far; \<open>nack n\<close> says that transaction number \<open>n\<close> on the bus
  fails (any pattern of failures is a choice of \<open>nack\<close>); \<open>i2c_ret\<close> is the
  \<^verbatim>\<open>int\<close> the block-transfer layer returns for success (\<open>True\<close>) and for failure,
  which the spec leaves open. Each device is a register-addressed memory with an
  internal pointer. \<open>ee_page\<close> is the EEPROM's write-page size, which the spec names
  without a value.
\<close>

record bus =
  trace :: "txn list"
  nack :: "nat \<Rightarrow> bool"
  i2c_ret :: "bool \<Rightarrow> int"
  rtc_mem :: "nat \<Rightarrow> u8"
  rtc_ptr :: nat
  ee_mem :: "nat \<Rightarrow> u8"
  ee_ptr :: nat
  ee_page :: nat

text \<open>
  Modelled from the spec: "write pointer, then stream". The payload bytes of a write go
  to the cells the pointer runs through; \<open>nxt\<close> advances the pointer.
\<close>

fun store :: "(nat \<Rightarrow> nat) \<Rightarrow> (nat \<Rightarrow> u8) \<Rightarrow> nat \<Rightarrow> u8 list \<Rightarrow> (nat \<Rightarrow> u8) \<times> nat" where
  "store nxt mem p [] = (mem, p)"
| "store nxt mem p (b # bs) = store nxt (mem(p := b)) (nxt p) bs"

text \<open>
  Modelled from the spec: a read streams \<open>n\<close> bytes from the cell the pointer is at.
\<close>

definition fetch :: "(nat \<Rightarrow> u8) \<Rightarrow> nat \<Rightarrow> nat \<Rightarrow> u8 list" where
  "fetch mem p n = map (\<lambda>i. mem (p + i)) [0..<n]"

text \<open>
  Modelled from the spec: the EEPROM imposes write-page boundaries, and a write that
  reaches the edge of its page wraps around to the start of the same page.
\<close>

definition page_next :: "nat \<Rightarrow> nat \<Rightarrow> nat" where
  "page_next page p = (p div page) * page + Suc p mod page"

text \<open>
  Modelled from the spec: what an acknowledged write transaction does to the device. The
  clock chip takes one register-address byte and has no page boundaries; the EEPROM
  takes two, most significant first.
\<close>

fun dev_write :: "bus \<Rightarrow> i2c_dev \<Rightarrow> u8 list \<Rightarrow> bus" where
  "dev_write s DS1307 (a # payload) =
     (let (m, p) = store Suc (rtc_mem s) (unat a) payload
      in s\<lparr>rtc_mem := m, rtc_ptr := p\<rparr>)"
| "dev_write s AT24C32 (hi # lo # payload) =
     (let (m, p) = store (page_next (ee_page s)) (ee_mem s) (unat hi * 256 + unat lo) payload
      in s\<lparr>ee_mem := m, ee_ptr := p\<rparr>)"
| "dev_write s d bytes = s"

text \<open>
  Modelled from the spec: the primitive \<^verbatim>\<open>write(device_addr, bytes) -> ok|error\<close>. The
  transaction is recorded; a failed one leaves the device as it was.
\<close>

definition bus_write :: "bus \<Rightarrow> i2c_dev \<Rightarrow> u8 list \<Rightarrow> bool \<times> bus" where
  "bus_write s dev bytes =
     (let ok = \<not> nack s (length (trace s));
          s' = s\<lparr>trace := trace s @ [BusWrite dev bytes]\<rparr>
      in (ok, if ok then dev_write s' dev bytes else s'))"

text \<open>
  Modelled from the spec: the primitive \<^verbatim>\<open>read(device_addr, length) -> bytes|error\<close>.
  The transaction is recorded; a failed one delivers no bytes.
\<close>

definition bus_read :: "bus \<Rightarrow> i2c_dev \<Rightarrow> nat \<Rightarrow> bool \<times> u8 list \<times> bus" where
  "bus_read s dev n =
     (let ok = \<not> nack s (length (trace s));
          s' = s\<lparr>trace := trace s @ [BusRead dev n]\<rparr>
      in if ok then
           (case dev of
              DS1307 \<Rightarrow> (True, fetch (rtc_mem s) (rtc_ptr s) n, s'\<lparr>rtc_ptr := rtc_ptr s + n\<rparr>)
            | AT24C32 \<Rightarrow> (True, fetch (ee_mem s) (ee_ptr s) n, s'\<lparr>ee_ptr := ee_ptr s + n\<rparr>))
         else (False, [], s'))"

section \<open>The addressed block-transfer layer\<close>

text \<open>
  The functions of i2c/i2c.c, which is absent, are modelled from section 4.1 of the spec.
  A buffer is the list of its bytes; C requires it to hold \<open>len\<close> bytes. A failure of
  the bus is passed on in the value returned.
\<close>

text \<open>
  Modelled from the spec: \<^verbatim>\<open>write_block\<close> with a one-byte register address, absent
  with i2c/i2c.c. It issues a single bus write whose payload is the register address
  followed by \<open>len\<close> payload bytes.
\<close>

definition i2c_wr_addr_blk :: "bus \<Rightarrow> i2c_dev \<Rightarrow> u8 \<Rightarrow> u8 list \<Rightarrow> nat \<Rightarrow> int \<times> bus" where
  "i2c_wr_addr_blk s dev reg buf len =
     (let (ok, s') = bus_write s dev (reg # take len buf) in (i2c_ret s ok, s'))"

text \<open>
  Modelled from the spec: \<^verbatim>\<open>write_byte\<close>, absent with i2c/i2c.c, the one-byte form
  of \<^verbatim>\<open>write_block\<close>.
\<close>

definition i2c_wr_addr_byte :: "bus \<Rightarrow> i2c_dev \<Rightarrow> u8 \<Rightarrow> u8 \<Rightarrow> int \<times> bus" where
  "i2c_wr_addr_byte s dev reg v =
     (let (ok, s') = bus_write s dev [reg, v] in (i2c_ret s ok, s'))"

text \<open>
  Modelled from the spec: \<^verbatim>\<open>read_block\<close> with a one-byte register address, absent
  with i2c/i2c.c. It issues a bus write carrying only the register address, then a bus
  read of \<open>len\<close> bytes into the buffer; a failed read leaves the buffer as it was.
\<close>

definition i2c_rd_addr_blk :: "bus \<Rightarrow> i2c_dev \<Rightarrow> u8 \<Rightarrow> u8 list \<Rightarrow> nat \<Rightarrow> int \<times> u8 list \<times> bus" where
  "i2c_rd_addr_blk s dev reg buf len =
     (let (ok1, s1) = bus_write s dev [reg];
          (ok2, bytes, s2) = bus_read s1 dev len
      in (i2c_ret s (ok1 \<and> ok2), if ok2 then bytes @ drop len buf else buf, s2))"

text \<open>
  Modelled from the spec: a two-byte register address is sent most significant byte
  first.
\<close>

definition addr16 :: "u16 \<Rightarrow> u8 list" where
  "addr16 reg = [ucast (drop_bit 8 reg), ucast reg]"

text \<open>
  Modelled from the spec: \<^verbatim>\<open>write_block\<close> with a two-byte register address, absent
  with i2c/i2c.c.
\<close>

definition i2c_wr_addr16_blk :: "bus \<Rightarrow> i2c_dev \<Rightarrow> u16 \<Rightarrow> u8 list \<Rightarrow> nat \<Rightarrow> int \<times> bus" where
  "i2c_wr_addr16_blk s dev reg buf len =
     (let (ok, s') = bus_write s dev (addr16 reg @ take len buf) in (i2c_ret s ok, s'))"

text \<open>
  Modelled from the spec: \<^verbatim>\<open>read_block\<close> with a two-byte register address, absent
  with i2c/i2c.c.
\<close>

definition i2c_rd_addr16_blk :: "bus \<Rightarrow> i2c_dev \<Rightarrow> u16 \<Rightarrow> u8 list \<Rightarrow> nat \<Rightarrow> int \<times> u8 list \<times> bus" where
  "i2c_rd_addr16_blk s dev reg buf len =
     (let (ok1, s1) = bus_write s dev (addr16 reg);
          (ok2, bytes, s2) = bus_read s1 dev len
      in (i2c_ret s (ok1 \<and> ok2), if ok2 then bytes @ drop len buf else buf, s2))"

section \<open>The device profiles of main.c\<close>

text \<open>
  main.c, lines 45-55. The local array holds 56 zero bytes after \<^verbatim>\<open>memset\<close>; the
  results of the two calls are dropped.
\<close>

definition rtc_init :: "bus \<Rightarrow> bus" where
  "rtc_init s =
     (let rtc_reg = replicate (unat RTC_RAM_SIZE) (0 :: u8);
          (r1, s1) = i2c_wr_addr_blk s DS1307 RTC_REG_RAM_BUF_START rtc_reg (unat RTC_RAM_SIZE);
          (r2, s2) = i2c_wr_addr_byte s1 DS1307 RTC_REG_START_TIME 0
      in s2)"

text \<open>main.c, lines 65-68: the decoding of the two bytes read.\<close>

definition rtc_time_decode :: "u8 \<Rightarrow> u8 \<Rightarrow> rtc_time_var" where
  "rtc_time_decode sec mn =
     \<lparr>sec_10 = drop_bit 4 (sec AND 0x70), sec_1 = sec AND 0x0F,
      min_10 = drop_bit 4 (mn AND 0x70), min_1 = mn AND 0x0F\<rparr>"

text \<open>
  main.c, lines 57-69. The local array \<^verbatim>\<open>rtc_dat\<close> is not initialised: \<open>d0\<close> and
  \<open>d1\<close> are the two bytes it holds before the read.
\<close>

definition rtc_get_time_var :: "bus \<Rightarrow> u8 \<Rightarrow> u8 \<Rightarrow> rtc_time_var \<times> bus" where
  "rtc_get_time_var s d0 d1 =
     (let (r, rtc_dat, s') = i2c_rd_addr_blk s DS1307 RTC_REG_START_TIME [d0, d1] 2;
          sec = rtc_dat ! 0;
          mn = rtc_dat ! 1
      in (rtc_time_decode sec mn, s'))"

text \<open>main.c, lines 71-76.\<close>

definition rtc_get_ram_buf :: "bus \<Rightarrow> u8 list \<Rightarrow> u8 \<Rightarrow> int \<times> u8 list \<times> bus" where
  "rtc_get_ram_buf s buf len =
     (if len \<ge> RTC_RAM_SIZE then (- 1, buf, s)
      else i2c_rd_addr_blk s DS1307 RTC_REG_RAM_BUF_START buf (unat len))"

text \<open>main.c, lines 78-83.\<close>

definition rtc_set_ram_buf :: "bus \<Rightarrow> u8 list \<Rightarrow> u8 \<Rightarrow> int \<times> bus" where
  "rtc_set_ram_buf s buf len =
     (if len \<ge> RTC_RAM_SIZE then (- 1, s)
      else i2c_wr_addr_blk s DS1307 RTC_REG_RAM_BUF_START buf (unat len))"

text \<open>main.c, lines 85-91.\<close>

definition eeprom_get_data :: "bus \<Rightarrow> u16 \<Rightarrow> u8 list \<Rightarrow> u16 \<Rightarrow> int \<times> u8 list \<times> bus" where
  "eeprom_get_data s reg_idx buf len =
     (if len \<ge> EEPROM_SIZE then (- 1, buf, s)
      else i2c_rd_addr16_blk s AT24C32 reg_idx buf (unat len))"

text \<open>
  main.c, lines 93-99. \<^verbatim>\<open>len\<close> is a \<^verbatim>\<open>uint8_t\<close> here; the comparison with the
  \<^verbatim>\<open>uint16_t\<close> constant is made on the converted value.
\<close>

definition eeprom_set_data :: "bus \<Rightarrow> u16 \<Rightarrow> u8 list \<Rightarrow> u8 \<Rightarrow> int \<times> bus" where
  "eeprom_set_data s reg_idx buf len =
     (if (ucast len :: u16) \<ge> EEPROM_SIZE then (- 1, s)
      else i2c_wr_addr16_blk s AT24C32 reg_idx buf (unat len))"

text \<open>
  main.c, lines 123-139: the demo before the endless loop. The GPIO, console and delay
  calls touch neither the bus nor the buffers. The result is the buffer printed as the
  RTC RAM read result, the buffer printed as the EEPROM read result, and the bus. The
  endless loop that follows (lines 142-149) calls \<open>rtc_get_time_var\<close> once a round and
  prints the four digits.
\<close>

definition main_demo :: "bus \<Rightarrow> u8 list \<times> u8 list \<times> bus" where
  "main_demo s =
     (let s1 = rtc_init s;
          (r2, s2) = rtc_set_ram_buf s1 Dummy_RTC_RAM (u8_of_size (strlen Dummy_RTC_RAM));
          (r3, s3) = eeprom_set_data s2 0x0000 Dummy_EEPROM (u8_of_size (strlen Dummy_EEPROM));
          i2c_buf = replicate 32 (0 :: u8);
          (r4, ram_buf, s4) = rtc_get_ram_buf s3 i2c_buf (u8_of_size (strlen Dummy_RTC_RAM));
          i2c_buf = replicate 32 (0 :: u8);
          (r5, ee_buf, s5) = eeprom_get_data s4 0x0000 i2c_buf (u16_of_size (strlen Dummy_EEPROM))
      in (ram_buf, ee_buf, s5))"

text \<open>
  A bus for concrete runs: nothing issued yet, every transaction acknowledged, both
  memories erased to 0xFF, write pages of 32 bytes, the layer returning 0 for success
  and 1 for failure.
\<close>

definition bus0 :: bus where
  "bus0 = \<lparr>trace = [], nack = (\<lambda>n. False), i2c_ret = (\<lambda>ok. if ok then 0 else 1),
           rtc_mem = (\<lambda>a. 0xFF), rtc_ptr = 0, ee_mem = (\<lambda>a. 0xFF), ee_ptr = 0,
           ee_page = 32\<rparr>"

text \<open>The same bus, but its first transaction fails.\<close>

definition bus0_nack_first :: bus where
  "bus0_nack_first = bus0\<lparr>nack := (\<lambda>n. n = 0)\<rparr>"

section \<open>The time-register codec\<close>

lemma unat_low_nibble: "unat ((b :: u8) AND 0x0F) = unat b mod 16"
proof -
  have "b AND 0x0F = take_bit 4 b"
    by (simp add: take_bit_eq_mask mask_numeral)
  then have "b AND 0x0F = b mod 16"
    by (simp add: take_bit_eq_mod)
  then show ?thesis
    by (simp add: unat_mod)
qed

lemma unat_tens_field: "unat (drop_bit 4 ((b :: u8) AND 0x70)) = unat b div 16 mod 8"
proof -
  have "drop_bit 4 (b AND 0x70) = take_bit 3 (drop_bit 4 b)"
    by (simp add: take_bit_eq_mask mask_numeral)
  then have "drop_bit 4 (b AND 0x70) = b div 16 mod 8"
    by (simp add: take_bit_eq_mod drop_bit_eq_div)
  then show ?thesis
    by (simp add: unat_mod unat_div)
qed

lemma tens_field_le: "drop_bit 4 ((b :: u8) AND 0x70) \<le> 7"
proof -
  have "unat (drop_bit 4 (b AND 0x70)) < 8"
    unfolding unat_tens_field by simp
  then have "unat (drop_bit 4 (b AND 0x70)) \<le> unat (7 :: u8)"
    by simp
  then show ?thesis
    by (simp only: word_le_nat_alt)
qed

text \<open>
  C4. The decoding of a time register is defined for every byte: the units digit is the
  byte's low four bits, the tens digit is bits 4 to 6 moved down by four places, so it
  is at most 7. Nothing is rejected: 0x45 gives tens 4 and units 5, 0x00 gives 0 and 0,
  and 0x79, which is not BCD, gives tens 7 and units 9. \<open>rtc_get_time_var\<close> applies
  this decoding to the two bytes its buffer holds after the read.
\<close>

theorem rtc_time_codec:
  "unat (sec_1 (rtc_time_decode sec mn)) = unat sec mod 16
   \<and> unat (sec_10 (rtc_time_decode sec mn)) = unat sec div 16 mod 8
   \<and> unat (min_1 (rtc_time_decode sec mn)) = unat mn mod 16
   \<and> unat (min_10 (rtc_time_decode sec mn)) = unat mn div 16 mod 8
   \<and> sec_10 (rtc_time_decode sec mn) \<le> 7
   \<and> min_10 (rtc_time_decode sec mn) \<le> 7
   \<and> rtc_time_decode 0x45 0x00 = \<lparr>sec_10 = 4, sec_1 = 5, min_10 = 0, min_1 = 0\<rparr>
   \<and> rtc_time_decode 0x79 0x45 = \<lparr>sec_10 = 7, sec_1 = 9, min_10 = 4, min_1 = 5\<rparr>
   \<and> fst (rtc_get_time_var s d0 d1) =
       rtc_time_decode
         (fst (snd (i2c_rd_addr_blk s DS1307 RTC_REG_START_TIME [d0, d1] 2)) ! 0)
         (fst (snd (i2c_rd_addr_blk s DS1307 RTC_REG_START_TIME [d0, d1] 2)) ! 1)"
proof -
  have run: "fst (rtc_get_time_var s d0 d1) =
       rtc_time_decode
         (fst (snd (i2c_rd_addr_blk s DS1307 RTC_REG_START_TIME [d0, d1] 2)) ! 0)
         (fst (snd (i2c_rd_addr_blk s DS1307 RTC_REG_START_TIME [d0, d1] 2)) ! 1)"
    by (simp add: rtc_get_time_var_def Let_def split: prod.split)
  have dec: "sec_1 (rtc_time_decode sec mn) = sec AND 0x0F"
    "sec_10 (rtc_time_decode sec mn) = drop_bit 4 (sec AND 0x70)"
    "min_1 (rtc_time_decode sec mn) = mn AND 0x0F"
    "min_10 (rtc_time_decode sec mn) = drop_bit 4 (mn AND 0x70)"
    by (simp_all add: rtc_time_decode_def)
  have ex: "rtc_time_decode 0x45 0x00 = \<lparr>sec_10 = 4, sec_1 = 5, min_10 = 0, min_1 = 0\<rparr>"
    "rtc_time_decode 0x79 0x45 = \<lparr>sec_10 = 7, sec_1 = 9, min_10 = 4, min_1 = 5\<rparr>"
    by (simp_all add: rtc_time_decode_def)
  show ?thesis
    unfolding dec
    using tens_field_le [of sec] tens_field_le [of mn] run ex
    by (simp only: unat_low_nibble unat_tens_field simp_thms)
qed

section \<open>The devices: what is stored is what is fetched\<close>

text \<open>
  As long as the pointer moves on by one, the bytes of a write lie in consecutive cells
  and nothing else changes; inside one page the pointer of the EEPROM does so.
\<close>

lemma store_linear:
  "(\<And>q. p \<le> q \<Longrightarrow> Suc q < p + length bs \<Longrightarrow> nxt q = Suc q) \<Longrightarrow>
   fst (store nxt mem p bs) = (\<lambda>a. if p \<le> a \<and> a < p + length bs then bs ! (a - p) else mem a)"
proof (induction bs arbitrary: mem p)
  case Nil
  then show ?case by (auto simp: fun_eq_iff)
next
  case (Cons b bs)
  show ?case
  proof (cases bs)
    case Nil
    then show ?thesis by (auto simp: fun_eq_iff)
  next
    case (Cons c cs)
    then have nxt: "nxt p = Suc p"
      using Cons.prems [of p] by simp
    have "fst (store nxt (mem(p := b)) (Suc p) bs) =
      (\<lambda>a. if Suc p \<le> a \<and> a < Suc p + length bs then bs ! (a - Suc p) else (mem(p := b)) a)"
      by (rule Cons.IH) (use Cons.prems in simp)
    then show ?thesis
      by (auto simp: nxt fun_eq_iff nth_Cons')
  qed
qed

lemma fetch_store:
  "(\<And>q. p \<le> q \<Longrightarrow> Suc q < p + length bs \<Longrightarrow> nxt q = Suc q) \<Longrightarrow>
   fetch (fst (store nxt mem p bs)) p (length bs) = bs"
proof -
  assume "\<And>q. p \<le> q \<Longrightarrow> Suc q < p + length bs \<Longrightarrow> nxt q = Suc q"
  then have "fst (store nxt mem p bs) =
      (\<lambda>a. if p \<le> a \<and> a < p + length bs then bs ! (a - p) else mem a)"
    by (rule store_linear)
  then show ?thesis
    by (auto simp: fetch_def intro: nth_equalityI)
qed

lemma page_next_inside:
  assumes "p mod page + n \<le> page" "p \<le> q" "Suc q < p + n"
  shows "page_next page q = Suc q"
proof -
  obtain d where d: "q = p + d" using assms(2) by (auto simp: le_iff_add)
  have lt: "p mod page + d + 1 < page" using assms d by simp
  then have pos: "0 < page" by simp
  have "(p + d) mod page = (p mod page + d) mod page" by (simp add: mod_add_left_eq)
  also have "\<dots> = p mod page + d" using lt by simp
  finally have qm: "q mod page = p mod page + d" using d by simp
  have "Suc q mod page = Suc (q mod page)"
    using lt qm by (simp add: mod_Suc)
  then show ?thesis
    by (simp add: page_next_def)
qed

section \<open>The bus transactions\<close>

text \<open>
  A transaction adds itself to the trace, and changes neither the pattern of failures nor
  the page size; an acknowledged write changes only the memory of the device addressed.
\<close>

lemma dev_write_frame:
  "trace (dev_write s d bytes) = trace s"
  "nack (dev_write s d bytes) = nack s"
  "i2c_ret (dev_write s d bytes) = i2c_ret s"
  "ee_page (dev_write s d bytes) = ee_page s"
  by (cases "(s, d, bytes)" rule: dev_write.cases; simp split: prod.split)+

lemma bus_write_frame:
  "fst (bus_write s d bytes) = (\<not> nack s (length (trace s)))"
  "trace (snd (bus_write s d bytes)) = trace s @ [BusWrite d bytes]"
  "nack (snd (bus_write s d bytes)) = nack s"
  "i2c_ret (snd (bus_write s d bytes)) = i2c_ret s"
  "ee_page (snd (bus_write s d bytes)) = ee_page s"
  by (simp_all add: bus_write_def Let_def dev_write_frame)

lemma bus_read_frame:
  "fst (bus_read s d n) = (\<not> nack s (length (trace s)))"
  "trace (snd (snd (bus_read s d n))) = trace s @ [BusRead d n]"
  "nack (snd (snd (bus_read s d n))) = nack s"
  "i2c_ret (snd (snd (bus_read s d n))) = i2c_ret s"
  "ee_page (snd (snd (bus_read s d n))) = ee_page s"
  "rtc_mem (snd (snd (bus_read s d n))) = rtc_mem s"
  "ee_mem (snd (snd (bus_read s d n))) = ee_mem s"
  by (simp_all add: bus_read_def Let_def split: i2c_dev.split)

lemma bus_write_rtc:
  "\<not> nack s (length (trace s)) \<Longrightarrow>
   rtc_mem (snd (bus_write s DS1307 (a # payload))) = fst (store Suc (rtc_mem s) (unat a) payload)"
  "\<not> nack s (length (trace s)) \<Longrightarrow>
   rtc_ptr (snd (bus_write s DS1307 (a # payload))) = snd (store Suc (rtc_mem s) (unat a) payload)"
  "ee_mem (snd (bus_write s DS1307 bytes)) = ee_mem s"
  by (cases bytes; simp add: bus_write_def Let_def split: prod.split)+

lemma bus_write_ee:
  "\<not> nack s (length (trace s)) \<Longrightarrow>
   ee_mem (snd (bus_write s AT24C32 (hi # lo # payload))) =
     fst (store (page_next (ee_page s)) (ee_mem s) (unat hi * 256 + unat lo) payload)"
  "\<not> nack s (length (trace s)) \<Longrightarrow>
   ee_ptr (snd (bus_write s AT24C32 (hi # lo # payload))) =
     snd (store (page_next (ee_page s)) (ee_mem s) (unat hi * 256 + unat lo) payload)"
  by (simp_all add: bus_write_def Let_def split: prod.split)

lemma bus_write_ee_rtc:
  "rtc_mem (snd (bus_write s AT24C32 bytes)) = rtc_mem s"
  by (cases "(s, AT24C32, bytes)" rule: dev_write.cases; simp add: bus_write_def Let_def split: prod.split)

lemma bus_read_data:
  "\<not> nack s (length (trace s)) \<Longrightarrow>
   fst (snd (bus_read s DS1307 n)) = fetch (rtc_mem s) (rtc_ptr s) n"
  "\<not> nack s (length (trace s)) \<Longrightarrow>
   fst (snd (bus_read s AT24C32 n)) = fetch (ee_mem s) (ee_ptr s) n"
  by (simp_all add: bus_read_def Let_def)

lemma length_fetch: "length (fetch mem p n) = n"
  by (simp add: fetch_def)

section \<open>The block-transfer layer on the bus\<close>

lemma i2c_wr_addr_blk_eq:
  "i2c_wr_addr_blk s dev reg buf len =
     (i2c_ret s (\<not> nack s (length (trace s))), snd (bus_write s dev (reg # take len buf)))"
  by (simp add: i2c_wr_addr_blk_def Let_def case_prod_beta bus_write_frame)

lemma i2c_wr_addr_byte_eq:
  "i2c_wr_addr_byte s dev reg v =
     (i2c_ret s (\<not> nack s (length (trace s))), snd (bus_write s dev [reg, v]))"
  by (simp add: i2c_wr_addr_byte_def Let_def case_prod_beta bus_write_frame)

lemma i2c_wr_addr16_blk_eq:
  "i2c_wr_addr16_blk s dev reg buf len =
     (i2c_ret s (\<not> nack s (length (trace s))), snd (bus_write s dev (addr16 reg @ take len buf)))"
  by (simp add: i2c_wr_addr16_blk_def Let_def case_prod_beta bus_write_frame)

lemma rd_blk_trace:
  "trace (snd (snd (i2c_rd_addr_blk s dev reg buf len))) =
     trace s @ [BusWrite dev [reg], BusRead dev len]"
  "trace (snd (snd (i2c_rd_addr16_blk s dev reg16 buf len))) =
     trace s @ [BusWrite dev (addr16 reg16), BusRead dev len]"
proof -
  have "\<And>bytes. trace (snd (snd (bus_read (snd (bus_write s dev bytes)) dev len))) =
      trace s @ [BusWrite dev bytes, BusRead dev len]"
    by (simp add: bus_read_frame bus_write_frame)
  then show "trace (snd (snd (i2c_rd_addr_blk s dev reg buf len))) =
     trace s @ [BusWrite dev [reg], BusRead dev len]"
    and "trace (snd (snd (i2c_rd_addr16_blk s dev reg16 buf len))) =
     trace s @ [BusWrite dev (addr16 reg16), BusRead dev len]"
    by (simp_all add: i2c_rd_addr_blk_def i2c_rd_addr16_blk_def Let_def case_prod_beta)
qed

lemma rd_blk_frame:
  "nack (snd (snd (i2c_rd_addr_blk s dev reg buf len))) = nack s"
  "nack (snd (snd (i2c_rd_addr16_blk s dev reg16 buf len))) = nack s"
  "ee_page (snd (snd (i2c_rd_addr_blk s dev reg buf len))) = ee_page s"
  "ee_page (snd (snd (i2c_rd_addr16_blk s dev reg16 buf len))) = ee_page s"
proof -
  have "\<And>bytes. nack (snd (snd (bus_read (snd (bus_write s dev bytes)) dev len))) = nack s"
    "\<And>bytes. ee_page (snd (snd (bus_read (snd (bus_write s dev bytes)) dev len))) = ee_page s"
    by (simp_all add: bus_read_frame bus_write_frame)
  then show "nack (snd (snd (i2c_rd_addr_blk s dev reg buf len))) = nack s"
  "nack (snd (snd (i2c_rd_addr16_blk s dev reg16 buf len))) = nack s"
  "ee_page (snd (snd (i2c_rd_addr_blk s dev reg buf len))) = ee_page s"
  "ee_page (snd (snd (i2c_rd_addr16_blk s dev reg16 buf len))) = ee_page s"
    by (simp_all add: i2c_rd_addr_blk_def i2c_rd_addr16_blk_def Let_def case_prod_beta)
qed

lemma addr16_value:
  "unat (ucast (drop_bit 8 (r :: u16)) :: u8) * 256 + unat (ucast r :: u8) = unat r"
proof -
  have lo: "unat (ucast r :: u8) = unat r mod 256"
    by (simp add: unsigned_ucast_eq unsigned_take_bit_eq take_bit_eq_mod)
  have "unat r < 65536"
    using unsigned_less [of r, where 'a = nat] by simp
  then have hi: "unat (ucast (drop_bit 8 r) :: u8) = unat r div 256"
    by (simp add: unsigned_ucast_eq unsigned_take_bit_eq take_bit_eq_mod
        unat_drop_bit_eq drop_bit_eq_div unat_div)
  show ?thesis
    unfolding lo hi by simp
qed

text \<open>What a read returns when both its transactions are acknowledged.\<close>

lemma rd_blk_data_rtc:
  assumes "\<not> nack s (length (trace s))" "\<not> nack s (Suc (length (trace s)))"
  shows "fst (snd (i2c_rd_addr_blk s DS1307 reg buf len)) =
     fetch (rtc_mem s) (unat reg) len @ drop len buf"
proof -
  let ?w = "bus_write s DS1307 [reg]"
  have a2: "\<not> nack (snd ?w) (length (trace (snd ?w)))"
    using assms by (simp add: bus_write_frame)
  have "fst (snd (bus_read (snd ?w) DS1307 len)) = fetch (rtc_mem (snd ?w)) (rtc_ptr (snd ?w)) len"
    using a2 by (rule bus_read_data)
  also have "\<dots> = fetch (rtc_mem s) (unat reg) len"
    using assms(1) by (simp add: bus_write_rtc)
  finally have "fst (snd (bus_read (snd ?w) DS1307 len)) = fetch (rtc_mem s) (unat reg) len" .
  moreover have "fst (bus_read (snd ?w) DS1307 len)"
    using a2 by (simp add: bus_read_frame)
  ultimately show ?thesis
    by (simp add: i2c_rd_addr_blk_def Let_def case_prod_beta)
qed

lemma rd_blk_data_ee:
  assumes "\<not> nack s (length (trace s))" "\<not> nack s (Suc (length (trace s)))"
  shows "fst (snd (i2c_rd_addr16_blk s AT24C32 reg buf len)) =
     fetch (ee_mem s) (unat reg) len @ drop len buf"
proof -
  let ?w = "bus_write s AT24C32 (addr16 reg)"
  have a2: "\<not> nack (snd ?w) (length (trace (snd ?w)))"
    using assms by (simp add: bus_write_frame)
  have "fst (snd (bus_read (snd ?w) AT24C32 len)) = fetch (ee_mem (snd ?w)) (ee_ptr (snd ?w)) len"
    using a2 by (rule bus_read_data)
  also have "\<dots> = fetch (ee_mem s) (unat reg) len"
    using assms(1) by (simp add: addr16_def bus_write_ee addr16_value)
  finally have "fst (snd (bus_read (snd ?w) AT24C32 len)) = fetch (ee_mem s) (unat reg) len" .
  moreover have "fst (bus_read (snd ?w) AT24C32 len)"
    using a2 by (simp add: bus_read_frame)
  ultimately show ?thesis
    by (simp add: i2c_rd_addr16_blk_def Let_def case_prod_beta)
qed

lemma wr_blk_frame:
  "trace (snd (i2c_wr_addr_blk s dev reg buf len)) = trace s @ [BusWrite dev (reg # take len buf)]"
  "nack (snd (i2c_wr_addr_blk s dev reg buf len)) = nack s"
  "ee_page (snd (i2c_wr_addr_blk s dev reg buf len)) = ee_page s"
  "ee_mem (snd (i2c_wr_addr_blk s DS1307 reg buf len)) = ee_mem s"
  by (simp_all add: i2c_wr_addr_blk_eq bus_write_frame bus_write_rtc)

lemma wr_byte_frame:
  "trace (snd (i2c_wr_addr_byte s dev reg v)) = trace s @ [BusWrite dev [reg, v]]"
  "nack (snd (i2c_wr_addr_byte s dev reg v)) = nack s"
  "ee_page (snd (i2c_wr_addr_byte s dev reg v)) = ee_page s"
  "ee_mem (snd (i2c_wr_addr_byte s DS1307 reg v)) = ee_mem s"
  by (simp_all add: i2c_wr_addr_byte_eq bus_write_frame bus_write_rtc)

lemma wr16_blk_frame:
  "trace (snd (i2c_wr_addr16_blk s dev reg16 buf len)) =
     trace s @ [BusWrite dev (addr16 reg16 @ take len buf)]"
  "nack (snd (i2c_wr_addr16_blk s dev reg16 buf len)) = nack s"
  "ee_page (snd (i2c_wr_addr16_blk s dev reg16 buf len)) = ee_page s"
  "rtc_mem (snd (i2c_wr_addr16_blk s AT24C32 reg16 buf len)) = rtc_mem s"
  by (simp_all add: i2c_wr_addr16_blk_eq bus_write_frame bus_write_ee_rtc)

lemma wr_blk_rtc_mem:
  "\<not> nack s (length (trace s)) \<Longrightarrow>
   rtc_mem (snd (i2c_wr_addr_blk s DS1307 reg buf len)) =
     fst (store Suc (rtc_mem s) (unat reg) (take len buf))"
  by (simp add: i2c_wr_addr_blk_eq bus_write_rtc)

lemma wr16_blk_ee_mem:
  "\<not> nack s (length (trace s)) \<Longrightarrow>
   ee_mem (snd (i2c_wr_addr16_blk s AT24C32 reg16 buf len)) =
     fst (store (page_next (ee_page s)) (ee_mem s) (unat reg16) (take len buf))"
  by (simp add: i2c_wr_addr16_blk_eq addr16_def bus_write_ee addr16_value)

lemma rd_blk_mem:
  "ee_mem (snd (snd (i2c_rd_addr_blk s DS1307 reg buf len))) = ee_mem s"
  "rtc_mem (snd (snd (i2c_rd_addr16_blk s AT24C32 reg16 buf len))) = rtc_mem s"
  by (simp_all add: i2c_rd_addr_blk_def i2c_rd_addr16_blk_def Let_def case_prod_beta
      bus_read_frame bus_write_rtc bus_write_ee_rtc)

text \<open>
  Write, then read back, on the layer: \<open>s\<close> is the bus before the write, \<open>s'\<close> the
  bus before the read, whose memory is still the one the write left.
\<close>

lemma rtc_write_read:
  assumes w: "\<not> nack s (length (trace s))"
    and r: "\<not> nack s' (length (trace s'))" "\<not> nack s' (Suc (length (trace s')))"
    and mem: "rtc_mem s' = rtc_mem (snd (i2c_wr_addr_blk s DS1307 reg buf len))"
    and len: "len \<le> length buf"
  shows "fst (snd (i2c_rd_addr_blk s' DS1307 reg out len)) = take len buf @ drop len out"
proof -
  let ?bs = "take len buf"
  have n: "length ?bs = len"
    using len by simp
  have "fetch (fst (store Suc (rtc_mem s) (unat reg) ?bs)) (unat reg) (length ?bs) = ?bs"
    by (rule fetch_store) simp
  then have "fetch (rtc_mem s') (unat reg) len = ?bs"
    using w n by (simp add: mem wr_blk_rtc_mem)
  then show ?thesis
    using r by (simp add: rd_blk_data_rtc)
qed

lemma ee_write_read:
  assumes w: "\<not> nack s (length (trace s))"
    and r: "\<not> nack s' (length (trace s'))" "\<not> nack s' (Suc (length (trace s')))"
    and mem: "ee_mem s' = ee_mem (snd (i2c_wr_addr16_blk s AT24C32 reg buf len))"
    and len: "len \<le> length buf"
    and page: "unat reg mod ee_page s + len \<le> ee_page s"
  shows "fst (snd (i2c_rd_addr16_blk s' AT24C32 reg out len)) = take len buf @ drop len out"
proof -
  let ?bs = "take len buf"
  have n: "length ?bs = len"
    using len by simp
  have "fetch (fst (store (page_next (ee_page s)) (ee_mem s) (unat reg) ?bs)) (unat reg) (length ?bs)
      = ?bs"
  proof (rule fetch_store)
    fix q
    assume "unat reg \<le> q" "Suc q < unat reg + length ?bs"
    with page show "page_next (ee_page s) q = Suc q"
      by (intro page_next_inside [where p = "unat reg" and n = len]) (simp_all add: n)
  qed
  then have "fetch (ee_mem s') (unat reg) len = ?bs"
    using w n by (simp add: mem wr16_blk_ee_mem)
  then show ?thesis
    using r by (simp add: rd_blk_data_ee)
qed

section \<open>Round trip through the accessors\<close>

lemma eeprom_len_fits: "\<not> EEPROM_SIZE \<le> (ucast (len :: u8) :: u16)"
proof -
  have "unat len < 256"
    using unsigned_less [of len, where 'a = nat] by simp
  then have "unat (ucast len :: u16) < unat EEPROM_SIZE"
    by (simp add: EEPROM_SIZE_def unsigned_ucast_eq unsigned_take_bit_eq take_bit_nat_eq_self)
  then show ?thesis
    by (simp add: word_le_nat_alt)
qed

lemma eeprom_set_data_eq:
  "eeprom_set_data s reg_idx buf len = i2c_wr_addr16_blk s AT24C32 reg_idx buf (unat len)"
  by (simp add: eeprom_set_data_def eeprom_len_fits)

lemma unat_ucast_len: "unat (ucast (len :: u8) :: u16) = unat len"
proof -
  have "unat len < 256"
    using unsigned_less [of len, where 'a = nat] by simp
  then show ?thesis
    by (simp add: unsigned_ucast_eq unsigned_take_bit_eq take_bit_nat_eq_self)
qed

text \<open>
  C1, as amended. For every length below the capacity that the accessors receive, a block
  write followed by a block read at the same register address with the same length
  returns the bytes written, with \<open>rtc_set_ram_buf\<close> and \<open>rtc_get_ram_buf\<close> as with
  \<open>eeprom_set_data\<close> and \<open>eeprom_get_data\<close>, when the bus acknowledges the write and
  the two transactions of the read and the EEPROM write stays inside one write page. The
  buffer written from holds \<open>len\<close> bytes, as C requires.
\<close>

theorem block_roundtrip:
  assumes acks: "\<not> nack s (length (trace s))" "\<not> nack s (Suc (length (trace s)))"
      "\<not> nack s (Suc (Suc (length (trace s))))"
    and buf: "unat len \<le> length buf"
  shows "(len < RTC_RAM_SIZE \<longrightarrow>
           take (unat len)
             (fst (snd (rtc_get_ram_buf (snd (rtc_set_ram_buf s buf len)) out len)))
           = take (unat len) buf)
       \<and> (unat reg_idx mod ee_page s + unat len \<le> ee_page s \<longrightarrow>
           take (unat len)
             (fst (snd (eeprom_get_data (snd (eeprom_set_data s reg_idx buf len))
                          reg_idx out (ucast len))))
           = take (unat len) buf)"
proof (intro conjI impI)
  assume lt: "len < RTC_RAM_SIZE"
  let ?s' = "snd (i2c_wr_addr_blk s DS1307 RTC_REG_RAM_BUF_START buf (unat len))"
  have "fst (snd (i2c_rd_addr_blk ?s' DS1307 RTC_REG_RAM_BUF_START out (unat len)))
      = take (unat len) buf @ drop (unat len) out"
    using acks by (intro rtc_write_read [OF acks(1) _ _ refl buf]) (simp_all add: wr_blk_frame)
  then have "take (unat len) (fst (snd (i2c_rd_addr_blk ?s' DS1307 RTC_REG_RAM_BUF_START out (unat len))))
      = take (unat len) buf"
    using buf by simp
  then show "take (unat len)
       (fst (snd (rtc_get_ram_buf (snd (rtc_set_ram_buf s buf len)) out len)))
      = take (unat len) buf"
    using lt by (simp add: rtc_get_ram_buf_def rtc_set_ram_buf_def not_le [symmetric])
next
  assume page: "unat reg_idx mod ee_page s + unat len \<le> ee_page s"
  let ?s' = "snd (i2c_wr_addr16_blk s AT24C32 reg_idx buf (unat len))"
  have "fst (snd (i2c_rd_addr16_blk ?s' AT24C32 reg_idx out (unat len)))
      = take (unat len) buf @ drop (unat len) out"
    using acks by (intro ee_write_read [OF acks(1) _ _ refl buf page]) (simp_all add: wr16_blk_frame)
  then have "take (unat len) (fst (snd (i2c_rd_addr16_blk ?s' AT24C32 reg_idx out (unat len))))
      = take (unat len) buf"
    using buf by simp
  then show "take (unat len)
       (fst (snd (eeprom_get_data (snd (eeprom_set_data s reg_idx buf len)) reg_idx out (ucast len))))
      = take (unat len) buf"
    by (simp add: eeprom_get_data_def eeprom_set_data_eq eeprom_len_fits unat_ucast_len)
qed

text \<open>The round trip at length 17 on the sample bus.\<close>

theorem block_roundtrip_witness:
  "\<not> nack bus0 (length (trace bus0)) \<and> \<not> nack bus0 (Suc (length (trace bus0)))
   \<and> \<not> nack bus0 (Suc (Suc (length (trace bus0))))
   \<and> unat (17 :: u8) \<le> length Dummy_EEPROM
   \<and> (17 :: u8) < RTC_RAM_SIZE
   \<and> unat (0 :: u16) mod ee_page bus0 + unat (17 :: u8) \<le> ee_page bus0
   \<and> take (unat (17 :: u8))
        (fst (snd (rtc_get_ram_buf (snd (rtc_set_ram_buf bus0 Dummy_EEPROM 17))
                     (replicate 32 0) 17)))
      = take (unat (17 :: u8)) Dummy_EEPROM
   \<and> take (unat (17 :: u8))
        (fst (snd (eeprom_get_data (snd (eeprom_set_data bus0 0 Dummy_EEPROM 17))
                     0 (replicate 32 0) (ucast (17 :: u8)))))
      = take (unat (17 :: u8)) Dummy_EEPROM"
proof -
  have a: "\<not> nack bus0 (length (trace bus0))" "\<not> nack bus0 (Suc (length (trace bus0)))"
    "\<not> nack bus0 (Suc (Suc (length (trace bus0))))"
    by (simp_all add: bus0_def)
  have b: "unat (17 :: u8) \<le> length Dummy_EEPROM"
    by (simp add: Dummy_EEPROM_def)
  have c: "(17 :: u8) < RTC_RAM_SIZE"
    by (simp add: RTC_RAM_SIZE_def)
  have d: "unat (0 :: u16) mod ee_page bus0 + unat (17 :: u8) \<le> ee_page bus0"
    by (simp add: bus0_def)
  show ?thesis
    using a b c d block_roundtrip [OF a b, of "replicate 32 0" 0]
    by blast
qed

lemma fetch_two: "fetch mem p 2 = [mem p, mem (Suc p)]"
  by (simp add: fetch_def numeral_2_eq_2)

text \<open>
  C1 as stated fails where the spec leaves the caller alone. Two bytes written at
  address 31 of an EEPROM with pages of 32 bytes cross the page boundary: the second
  byte wraps to address 0, and the read from 31 returns the first byte and the old
  content of address 32. And when the bus does not acknowledge the write, the read
  returns the old content of the RTC RAM.
\<close>

theorem roundtrip_page_nack_counterexample:
  "fst (snd (eeprom_get_data (snd (eeprom_set_data bus0 31 [0x11, 0x22] 2)) 31 [0, 0] 2))
     = [0x11, 0xFF]
   \<and> fst (snd (rtc_get_ram_buf (snd (rtc_set_ram_buf bus0_nack_first [0x11, 0x22] 2)) [0, 0] 2))
     = [0xFF, 0xFF]"
proof -
  let ?e = "snd (eeprom_set_data bus0 31 [0x11, 0x22] 2)"
  have e: "nack ?e = (\<lambda>n. False)" "length (trace ?e) = 1"
    "ee_mem ?e = (\<lambda>a. if a = 0 then 0x22 else if a = 31 then 0x11 else 0xFF)"
    by (simp_all add: eeprom_set_data_eq wr16_blk_frame wr16_blk_ee_mem bus0_def
        page_next_def fun_eq_iff)
  have "fst (snd (i2c_rd_addr16_blk ?e AT24C32 31 [0, 0] 2))
      = fetch (ee_mem ?e) (unat (31 :: u16)) 2 @ drop 2 [0, 0]"
    by (rule rd_blk_data_ee) (simp_all add: e)
  then have ee: "fst (snd (eeprom_get_data ?e 31 [0, 0] 2)) = [0x11, 0xFF]"
    by (simp add: eeprom_get_data_def EEPROM_SIZE_def fetch_two e)
  let ?r = "snd (rtc_set_ram_buf bus0_nack_first [0x11, 0x22] 2)"
  have r: "nack ?r = (\<lambda>n. n = 0)" "length (trace ?r) = 1" "rtc_mem ?r = (\<lambda>a. 0xFF)"
    by (simp_all add: rtc_set_ram_buf_def RTC_RAM_SIZE_def wr_blk_frame i2c_wr_addr_blk_eq
        bus_write_def bus0_nack_first_def bus0_def)
  have "fst (snd (i2c_rd_addr_blk ?r DS1307 RTC_REG_RAM_BUF_START [0, 0] 2))
      = fetch (rtc_mem ?r) (unat RTC_REG_RAM_BUF_START) 2 @ drop 2 [0, 0]"
    by (rule rd_blk_data_rtc) (simp_all add: r)
  then have rtc: "fst (snd (rtc_get_ram_buf ?r [0, 0] 2)) = [0xFF, 0xFF]"
    by (simp add: rtc_get_ram_buf_def RTC_RAM_SIZE_def fetch_two r)
  show ?thesis
    using ee rtc by (rule conjI)
qed

section \<open>Bounds errors\<close>

text \<open>
  Where the length parameter can hold the capacity, the check fires: for every length at
  or above the capacity, \<open>rtc_get_ram_buf\<close> and \<open>rtc_set_ram_buf\<close> (capacity 56) and
  \<open>eeprom_get_data\<close> (capacity 4096) return -1 and leave the bus as it was. The
  boundary is strict: 56 and 4096 are rejected, 55 and 4095 are handed to the
  block-transfer layer.
\<close>

lemma live_guard_rejects:
  "(RTC_RAM_SIZE \<le> len \<longrightarrow>
      rtc_get_ram_buf s buf len = (- 1, buf, s) \<and> rtc_set_ram_buf s buf len = (- 1, s))
   \<and> (EEPROM_SIZE \<le> len16 \<longrightarrow> eeprom_get_data s reg_idx buf len16 = (- 1, buf, s))"
  by (simp add: rtc_get_ram_buf_def rtc_set_ram_buf_def eeprom_get_data_def)

lemma live_guard_boundary:
  "rtc_set_ram_buf s buf 56 = (- 1, s)
   \<and> rtc_get_ram_buf s buf 56 = (- 1, buf, s)
   \<and> eeprom_get_data s reg_idx buf 4096 = (- 1, buf, s)
   \<and> rtc_set_ram_buf s buf 55 = i2c_wr_addr_blk s DS1307 RTC_REG_RAM_BUF_START buf 55
   \<and> rtc_get_ram_buf s buf 55 = i2c_rd_addr_blk s DS1307 RTC_REG_RAM_BUF_START buf 55
   \<and> eeprom_get_data s reg_idx buf 4095 = i2c_rd_addr16_blk s AT24C32 reg_idx buf 4095"
  by (simp add: rtc_get_ram_buf_def rtc_set_ram_buf_def eeprom_get_data_def
      RTC_RAM_SIZE_def EEPROM_SIZE_def)

text \<open>
  C2. Every accessor is to return -1 and issue nothing on the bus for a length at or
  above its capacity. \<open>eeprom_set_data\<close> does not: its length parameter is a
  \<^verbatim>\<open>uint8_t\<close>, a call with length 4097 reaches it as 1, the check of line 95 does not
  fire, and a write of one byte goes out on the bus. \<open>eeprom_get_data\<close>, whose length
  is a \<^verbatim>\<open>uint16_t\<close>, returns -1 for the same length and leaves the bus alone.
\<close>

theorem eeprom_set_4097_reaches_bus:
  "u8_of_size 4097 = 1
   \<and> trace bus0 = []
   \<and> trace (snd (eeprom_set_data bus0 0 (replicate 4097 0xAA) (u8_of_size 4097)))
       = [BusWrite AT24C32 [0, 0, 0xAA]]
   \<and> eeprom_get_data bus0 0 (replicate 4097 0) (u16_of_size 4097)
       = (- 1, replicate 4097 0, bus0)"
proof -
  have len: "u8_of_size 4097 = 1" "EEPROM_SIZE \<le> u16_of_size 4097"
    by (simp_all add: u8_of_size_def u16_of_size_def EEPROM_SIZE_def)
  then show ?thesis
    by (simp add: eeprom_set_data_eq wr16_blk_frame addr16_def bus0_def eeprom_get_data_def)
qed

text \<open>
  C3. A length equal to the capacity is to be rejected by every accessor.
  \<open>eeprom_set_data\<close> does not reject 4096: the \<^verbatim>\<open>uint8_t\<close> parameter receives 0, and
  the call is handed to the block-transfer layer as a write of no bytes.
  \<open>eeprom_get_data\<close> rejects 4096.
\<close>

theorem eeprom_set_4096_not_rejected:
  "u8_of_size 4096 = 0
   \<and> eeprom_set_data bus0 0 (replicate 4096 0xAA) (u8_of_size 4096)
       = i2c_wr_addr16_blk bus0 AT24C32 0 (replicate 4096 0xAA) 0
   \<and> eeprom_set_data bus0 0 (replicate 4096 0xAA) (u8_of_size 4096) \<noteq> (- 1, bus0)
   \<and> eeprom_get_data bus0 0 (replicate 4096 0) (u16_of_size 4096)
       = (- 1, replicate 4096 0, bus0)"
proof -
  have len: "u8_of_size 4096 = 0" "EEPROM_SIZE \<le> u16_of_size 4096"
    by (simp_all add: u8_of_size_def u16_of_size_def EEPROM_SIZE_def)
  have "eeprom_set_data bus0 0 (replicate 4096 0xAA) (u8_of_size 4096) \<noteq> (- 1, bus0)"
  proof
    assume "eeprom_set_data bus0 0 (replicate 4096 0xAA) (u8_of_size 4096) = (- 1, bus0)"
    then have "trace (snd (eeprom_set_data bus0 0 (replicate 4096 0xAA) (u8_of_size 4096)))
        = trace bus0"
      by simp
    then show False
      by (simp add: eeprom_set_data_eq wr16_blk_frame)
  qed
  then show ?thesis
    using len by (simp add: eeprom_set_data_eq eeprom_get_data_def)
qed

section \<open>The transactions of a read\<close>

text \<open>
  C6. A block read, with a one-byte or a two-byte register address, adds exactly two
  transactions to the bus, in this order: a write that carries only the register address,
  then a read of the requested length; so for every length, zero included.
\<close>

theorem read_block_two_transactions:
  "trace (snd (snd (i2c_rd_addr_blk s dev reg buf len)))
     = trace s @ [BusWrite dev [reg], BusRead dev len]
   \<and> trace (snd (snd (i2c_rd_addr16_blk s dev reg16 buf len)))
     = trace s @ [BusWrite dev [ucast (drop_bit 8 reg16), ucast reg16], BusRead dev len]
   \<and> trace (snd (snd (i2c_rd_addr_blk s dev reg buf 0)))
     = trace s @ [BusWrite dev [reg], BusRead dev 0]"
  by (simp add: rd_blk_trace addr16_def)

section \<open>The EEPROM write accessor\<close>

text \<open>
  C9. In \<open>eeprom_set_data\<close> the comparison of the 8-bit length with 4096 never holds:
  for every length and register address the call is the call of the block-transfer layer
  and puts one write on the bus. \<open>eeprom_get_data\<close>, with its 16-bit length, does
  return -1 at 4096.
\<close>

theorem eeprom_set_data_bounds_unreachable:
  "\<not> EEPROM_SIZE \<le> (ucast len :: u16)
   \<and> eeprom_set_data s reg_idx buf len = i2c_wr_addr16_blk s AT24C32 reg_idx buf (unat len)
   \<and> trace (snd (eeprom_set_data s reg_idx buf len))
     = trace s @ [BusWrite AT24C32 (addr16 reg_idx @ take (unat len) buf)]
   \<and> eeprom_get_data s reg_idx buf EEPROM_SIZE = (- 1, buf, s)"
  by (simp add: eeprom_len_fits eeprom_set_data_eq wr16_blk_frame eeprom_get_data_def)

section \<open>Initialisation of the clock chip\<close>

lemma rtc_init_eq:
  "rtc_init s =
     snd (i2c_wr_addr_byte
            (snd (i2c_wr_addr_blk s DS1307 RTC_REG_RAM_BUF_START (replicate 56 0) 56))
            DS1307 RTC_REG_START_TIME 0)"
  by (simp add: rtc_init_def Let_def case_prod_beta RTC_RAM_SIZE_def)

lemma rtc_init_frame:
  "trace (rtc_init s) =
     trace s @ [BusWrite DS1307 (0x08 # replicate 56 0), BusWrite DS1307 [0x00, 0]]"
  "nack (rtc_init s) = nack s"
  "ee_page (rtc_init s) = ee_page s"
  "ee_mem (rtc_init s) = ee_mem s"
  by (simp_all add: rtc_init_eq wr_blk_frame wr_byte_frame RTC_REG_RAM_BUF_START_def
      RTC_REG_START_TIME_def)

text \<open>
  C10. \<open>rtc_init\<close> calls the block-transfer layer itself with the length 56, the full
  capacity, and the write goes out on the bus with 56 bytes; \<open>rtc_set_ram_buf\<close> with
  the same buffer and length returns -1 and issues nothing.
\<close>

theorem rtc_init_full_capacity:
  "rtc_init s =
     snd (i2c_wr_addr_byte
            (snd (i2c_wr_addr_blk s DS1307 RTC_REG_RAM_BUF_START (replicate 56 0)
                    (unat RTC_RAM_SIZE)))
            DS1307 RTC_REG_START_TIME 0)
   \<and> unat RTC_RAM_SIZE = 56
   \<and> trace (snd (i2c_wr_addr_blk s DS1307 RTC_REG_RAM_BUF_START (replicate 56 0)
                    (unat RTC_RAM_SIZE)))
     = trace s @ [BusWrite DS1307 (0x08 # replicate 56 0)]
   \<and> rtc_set_ram_buf s (replicate 56 0) RTC_RAM_SIZE = (- 1, s)"
  by (simp add: rtc_init_eq wr_blk_frame rtc_set_ram_buf_def RTC_RAM_SIZE_def
      RTC_REG_RAM_BUF_START_def)

lemma bus_write_rtc_any:
  "rtc_mem (snd (bus_write s DS1307 (a # payload))) =
     (if nack s (length (trace s)) then rtc_mem s
      else fst (store Suc (rtc_mem s) (unat a) payload))"
  by (simp add: bus_write_def Let_def split: prod.split)

lemma map_const_upt:
  "(\<And>a. i \<le> a \<Longrightarrow> a < j \<Longrightarrow> f a = c) \<Longrightarrow> map f [i..<j] = replicate (j - i) c"
  by (auto intro!: nth_equalityI)

text \<open>
  C5. \<open>rtc_init\<close> issues exactly two transactions: one block write of 56 zero bytes
  from register 0x08, and one write of the value 0 to register 0. When the block write is
  acknowledged, the 56 cells from 8 to 63 of the clock chip hold zero afterwards.
\<close>

theorem rtc_init_clears_ram:
  "trace (rtc_init s) =
     trace s @ [BusWrite DS1307 (0x08 # replicate 56 0), BusWrite DS1307 [0x00, 0]]
   \<and> (\<not> nack s (length (trace s)) \<longrightarrow> map (rtc_mem (rtc_init s)) [8..<64] = replicate 56 0)"
proof (intro conjI impI)
  show "trace (rtc_init s) =
     trace s @ [BusWrite DS1307 (0x08 # replicate 56 0), BusWrite DS1307 [0x00, 0]]"
    by (rule rtc_init_frame)
next
  assume ack: "\<not> nack s (length (trace s))"
  let ?s1 = "snd (i2c_wr_addr_blk s DS1307 RTC_REG_RAM_BUF_START (replicate 56 0) 56)"
  have "rtc_mem ?s1 = fst (store Suc (rtc_mem s) 8 (replicate 56 0))"
    using ack by (simp add: wr_blk_rtc_mem RTC_REG_RAM_BUF_START_def)
  also have "\<dots> = (\<lambda>a. if 8 \<le> a \<and> a < 8 + length (replicate 56 (0 :: u8))
      then replicate 56 (0 :: u8) ! (a - 8) else rtc_mem s a)"
    by (rule store_linear) simp
  finally have m1: "rtc_mem ?s1 a = 0" if "8 \<le> a" "a < 64" for a
    using that by simp
  have m2: "rtc_mem (rtc_init s) a = rtc_mem ?s1 a" if "8 \<le> a" for a
    using that
    by (simp add: rtc_init_eq i2c_wr_addr_byte_eq bus_write_rtc_any RTC_REG_START_TIME_def)
  have "map (rtc_mem (rtc_init s)) [8..<64] = replicate (64 - 8) 0"
    by (rule map_const_upt) (simp add: m1 m2)
  moreover have "(64 :: nat) - 8 = 56"
    by simp
  ultimately show "map (rtc_mem (rtc_init s)) [8..<64] = replicate 56 0"
    by (simp only:)
qed

text \<open>
  Initialisation on the sample bus.
\<close>

theorem rtc_init_clears_ram_witness:
  "\<not> nack bus0 (length (trace bus0))
   \<and> trace (rtc_init bus0) =
       trace bus0 @ [BusWrite DS1307 (0x08 # replicate 56 0), BusWrite DS1307 [0x00, 0]]
   \<and> map (rtc_mem (rtc_init bus0)) [8..<64] = replicate 56 0"
proof -
  have a: "\<not> nack bus0 (length (trace bus0))"
    by (simp add: bus0_def)
  show ?thesis
    using a rtc_init_clears_ram [of bus0] by blast
qed

section \<open>The demo\<close>

lemma strlen_Dummy:
  "strlen Dummy_RTC_RAM = 18" "strlen Dummy_EEPROM = 17"
  by (simp_all add: strlen_def Dummy_RTC_RAM_def Dummy_EEPROM_def)

lemma take_Dummy:
  "take 18 Dummy_RTC_RAM = map of_char ''RTC_RAM_Dummy_data''"
  "take 17 Dummy_EEPROM = map of_char ''EEPROM_Dummy_data''"
  by (simp_all add: Dummy_RTC_RAM_def Dummy_EEPROM_def)

lemma main_demo_eq:
  "main_demo s =
     (fst (snd (i2c_rd_addr_blk
                  (snd (i2c_wr_addr16_blk
                          (snd (i2c_wr_addr_blk (rtc_init s) DS1307 RTC_REG_RAM_BUF_START
                                  Dummy_RTC_RAM 18))
                          AT24C32 0 Dummy_EEPROM 17))
                  DS1307 RTC_REG_RAM_BUF_START (replicate 32 0) 18)),
      snd (i2c_rd_addr16_blk
             (snd (snd (i2c_rd_addr_blk
                          (snd (i2c_wr_addr16_blk
                                  (snd (i2c_wr_addr_blk (rtc_init s) DS1307
                                          RTC_REG_RAM_BUF_START Dummy_RTC_RAM 18))
                                  AT24C32 0 Dummy_EEPROM 17))
                          DS1307 RTC_REG_RAM_BUF_START (replicate 32 0) 18)))
             AT24C32 0 (replicate 32 0) 17))"
proof -
  have "u8_of_size 18 = 18" "u8_of_size 17 = 17" "u16_of_size 17 = 17"
    by (simp_all add: u8_of_size_def u16_of_size_def)
  moreover have "\<not> RTC_RAM_SIZE \<le> 18" "\<not> EEPROM_SIZE \<le> 17"
    by (simp_all add: RTC_RAM_SIZE_def EEPROM_SIZE_def)
  ultimately show ?thesis
    by (simp add: main_demo_def strlen_Dummy Let_def case_prod_beta rtc_set_ram_buf_def
        rtc_get_ram_buf_def eeprom_get_data_def eeprom_set_data_eq)
qed

lemma main_demo_trace:
  "trace (snd (snd (main_demo s))) =
     trace s @
     [BusWrite DS1307 (0x08 # replicate 56 0),
      BusWrite DS1307 [0x00, 0],
      BusWrite DS1307 (0x08 # map of_char ''RTC_RAM_Dummy_data''),
      BusWrite AT24C32 (0 # 0 # map of_char ''EEPROM_Dummy_data''),
      BusWrite DS1307 [0x08],
      BusRead DS1307 18,
      BusWrite AT24C32 [0, 0],
      BusRead AT24C32 17]"
  by (simp add: main_demo_eq rd_blk_trace wr16_blk_frame wr_blk_frame rtc_init_frame
      take_Dummy addr16_def RTC_REG_RAM_BUF_START_def)

text \<open>
  C7, as amended. The string "EEPROM_Dummy_data" has 17 bytes before its terminating
  zero. The demo writes these 17 bytes to the EEPROM at register address 0 and reads 17
  bytes from address 0. When the bus acknowledges the write and the two transactions of
  the read, and a write page of the EEPROM holds 17 bytes, the buffer printed holds the
  17 bytes of the string, followed by the zeros it was cleared to.
\<close>

theorem demo_eeprom_roundtrip:
  assumes acks: "\<not> nack s (length (trace s) + 3)" "\<not> nack s (length (trace s) + 6)"
      "\<not> nack s (length (trace s) + 7)"
    and page: "17 \<le> ee_page s"
  shows "strlen Dummy_EEPROM = 17
    \<and> trace (snd (snd (main_demo s))) ! (length (trace s) + 3)
        = BusWrite AT24C32 (0 # 0 # map of_char ''EEPROM_Dummy_data'')
    \<and> trace (snd (snd (main_demo s))) ! (length (trace s) + 7) = BusRead AT24C32 17
    \<and> fst (snd (main_demo s)) = map of_char ''EEPROM_Dummy_data'' @ replicate 15 0"
proof -
  let ?s2 = "snd (i2c_wr_addr_blk (rtc_init s) DS1307 RTC_REG_RAM_BUF_START Dummy_RTC_RAM 18)"
  let ?s3 = "snd (i2c_wr_addr16_blk ?s2 AT24C32 0 Dummy_EEPROM 17)"
  let ?s4 = "snd (snd (i2c_rd_addr_blk ?s3 DS1307 RTC_REG_RAM_BUF_START (replicate 32 0) 18))"
  have w: "\<not> nack ?s2 (length (trace ?s2))"
    using acks(1) by (simp add: wr_blk_frame rtc_init_frame numeral_3_eq_3)
  have r: "\<not> nack ?s4 (length (trace ?s4))" "\<not> nack ?s4 (Suc (length (trace ?s4)))"
    using acks(2,3)
    by (simp_all add: rd_blk_frame rd_blk_trace wr16_blk_frame wr_blk_frame rtc_init_frame
        eval_nat_numeral)
  have mem: "ee_mem ?s4 = ee_mem ?s3"
    by (rule rd_blk_mem)
  have len: "17 \<le> length Dummy_EEPROM"
    by (simp add: Dummy_EEPROM_def)
  have pg: "unat (0 :: u16) mod ee_page ?s2 + 17 \<le> ee_page ?s2"
    using page by (simp add: wr_blk_frame rtc_init_frame)
  have "fst (snd (i2c_rd_addr16_blk ?s4 AT24C32 0 (replicate 32 0) 17))
      = take 17 Dummy_EEPROM @ drop 17 (replicate 32 0)"
    using w r mem len pg by (rule ee_write_read)
  then have buf: "fst (snd (main_demo s)) = map of_char ''EEPROM_Dummy_data'' @ replicate 15 0"
    by (simp add: main_demo_eq take_Dummy)
  have tr: "trace (snd (snd (main_demo s))) ! (length (trace s) + 3)
        = BusWrite AT24C32 (0 # 0 # map of_char ''EEPROM_Dummy_data'')"
    "trace (snd (snd (main_demo s))) ! (length (trace s) + 7) = BusRead AT24C32 17"
    by (simp_all only: main_demo_trace nth_append_length_plus) (simp_all add: eval_nat_numeral)
  show ?thesis
    using buf tr strlen_Dummy(2) by (intro conjI)
qed

text \<open>
  The EEPROM part of the demo on the sample bus.
\<close>

theorem demo_eeprom_roundtrip_witness:
  "\<not> nack bus0 (length (trace bus0) + 3) \<and> \<not> nack bus0 (length (trace bus0) + 6)
   \<and> \<not> nack bus0 (length (trace bus0) + 7) \<and> 17 \<le> ee_page bus0
   \<and> strlen Dummy_EEPROM = 17
   \<and> trace (snd (snd (main_demo bus0))) ! (length (trace bus0) + 3)
        = BusWrite AT24C32 (0 # 0 # map of_char ''EEPROM_Dummy_data'')
   \<and> trace (snd (snd (main_demo bus0))) ! (length (trace bus0) + 7) = BusRead AT24C32 17
   \<and> fst (snd (main_demo bus0)) = map of_char ''EEPROM_Dummy_data'' @ replicate 15 0"
proof -
  have a: "\<not> nack bus0 (length (trace bus0) + 3)" "\<not> nack bus0 (length (trace bus0) + 6)"
    "\<not> nack bus0 (length (trace bus0) + 7)" "17 \<le> ee_page bus0"
    by (simp_all add: bus0_def)
  show ?thesis
    using a demo_eeprom_roundtrip [OF a] by blast
qed

text \<open>
  C7 as stated fails: the length the demo passes is 17, not 18; its EEPROM write carries
  17 bytes after the address and its EEPROM read asks for 17 bytes.
\<close>

theorem demo_eeprom_18_counterexample:
  "strlen Dummy_EEPROM \<noteq> 18
   \<and> trace (snd (snd (main_demo bus0))) ! 3 = BusWrite AT24C32 ([0, 0] @ take 17 Dummy_EEPROM)
   \<and> trace (snd (snd (main_demo bus0))) ! 7 = BusRead AT24C32 17"
proof -
  have "trace bus0 = []"
    by (simp add: bus0_def)
  then show ?thesis
    by (simp add: main_demo_trace strlen_Dummy take_Dummy)
qed

text \<open>
  C8, as amended. The string "RTC_RAM_Dummy_data" has 18 bytes before its terminating
  zero. The demo writes these 18 bytes to the RTC RAM at its base offset 0x08 and reads
  18 bytes back. When the bus acknowledges the write and the two transactions of the
  read, the buffer printed holds the 18 bytes of the string, followed by the zeros it was
  cleared to.
\<close>

theorem demo_rtc_ram_roundtrip:
  assumes acks: "\<not> nack s (length (trace s) + 2)" "\<not> nack s (length (trace s) + 4)"
      "\<not> nack s (length (trace s) + 5)"
  shows "strlen Dummy_RTC_RAM = 18
    \<and> trace (snd (snd (main_demo s))) ! (length (trace s) + 2)
        = BusWrite DS1307 (RTC_REG_RAM_BUF_START # map of_char ''RTC_RAM_Dummy_data'')
    \<and> trace (snd (snd (main_demo s))) ! (length (trace s) + 5) = BusRead DS1307 18
    \<and> fst (main_demo s) = map of_char ''RTC_RAM_Dummy_data'' @ replicate 14 0"
proof -
  let ?s1 = "rtc_init s"
  let ?s2 = "snd (i2c_wr_addr_blk ?s1 DS1307 RTC_REG_RAM_BUF_START Dummy_RTC_RAM 18)"
  let ?s3 = "snd (i2c_wr_addr16_blk ?s2 AT24C32 0 Dummy_EEPROM 17)"
  have w: "\<not> nack ?s1 (length (trace ?s1))"
    using acks(1) by (simp add: rtc_init_frame)
  have r: "\<not> nack ?s3 (length (trace ?s3))" "\<not> nack ?s3 (Suc (length (trace ?s3)))"
    using acks(2,3)
    by (simp_all add: wr16_blk_frame wr_blk_frame rtc_init_frame eval_nat_numeral)
  have mem: "rtc_mem ?s3 = rtc_mem ?s2"
    by (rule wr16_blk_frame)
  have len: "18 \<le> length Dummy_RTC_RAM"
    by (simp add: Dummy_RTC_RAM_def)
  have "fst (snd (i2c_rd_addr_blk ?s3 DS1307 RTC_REG_RAM_BUF_START (replicate 32 0) 18))
      = take 18 Dummy_RTC_RAM @ drop 18 (replicate 32 0)"
    using w r mem len by (rule rtc_write_read)
  then have buf: "fst (main_demo s) = map of_char ''RTC_RAM_Dummy_data'' @ replicate 14 0"
    by (simp add: main_demo_eq take_Dummy)
  have tr: "trace (snd (snd (main_demo s))) ! (length (trace s) + 2)
        = BusWrite DS1307 (RTC_REG_RAM_BUF_START # map of_char ''RTC_RAM_Dummy_data'')"
    "trace (snd (snd (main_demo s))) ! (length (trace s) + 5) = BusRead DS1307 18"
    by (simp_all only: main_demo_trace nth_append_length_plus)
      (simp_all add: eval_nat_numeral RTC_REG_RAM_BUF_START_def)
  show ?thesis
    using buf tr strlen_Dummy(1) by (intro conjI)
qed

text \<open>
  The RTC RAM part of the demo on the sample bus.
\<close>

theorem demo_rtc_ram_roundtrip_witness:
  "\<not> nack bus0 (length (trace bus0) + 2) \<and> \<not> nack bus0 (length (trace bus0) + 4)
   \<and> \<not> nack bus0 (length (trace bus0) + 5)
   \<and> strlen Dummy_RTC_RAM = 18
   \<and> trace (snd (snd (main_demo bus0))) ! (length (trace bus0) + 2)
        = BusWrite DS1307 (RTC_REG_RAM_BUF_START # map of_char ''RTC_RAM_Dummy_data'')
   \<and> trace (snd (snd (main_demo bus0))) ! (length (trace bus0) + 5) = BusRead DS1307 18
   \<and> fst (main_demo bus0) = map of_char ''RTC_RAM_Dummy_data'' @ replicate 14 0"
proof -
  have a: "\<not> nack bus0 (length (trace bus0) + 2)" "\<not> nack bus0 (length (trace bus0) + 4)"
    "\<not> nack bus0 (length (trace bus0) + 5)"
    by (simp_all add: bus0_def)
  show ?thesis
    using a demo_rtc_ram_roundtrip [OF a] by blast
qed

text \<open>
  C8 as stated fails: the length the demo passes is 18, not 19; its RTC RAM write carries
  18 bytes after the register address and its RTC RAM read asks for 18 bytes.
\<close>

theorem demo_rtc_ram_19_counterexample:
  "strlen Dummy_RTC_RAM \<noteq> 19
   \<and> trace (snd (snd (main_demo bus0))) ! 2
       = BusWrite DS1307 (RTC_REG_RAM_BUF_START # take 18 Dummy_RTC_RAM)
   \<and> trace (snd (snd (main_demo bus0))) ! 5 = BusRead DS1307 18"
proof -
  have "trace bus0 = []"
    by (simp add: bus0_def)
  then show ?thesis
    by (simp add: main_demo_trace strlen_Dummy take_Dummy RTC_REG_RAM_BUF_START_def)
qed

end
